theory Spec2Isabelle
  imports Complex_Main
begin

section \<open>Python values used by the option pricing analyzer\<close>

text \<open>
  The analyzer (\<^verbatim>\<open>scripts/option_pricing_analyzer.py\<close>) works on strings, numbers and
  dictionaries. Strings are byte strings of ASCII text. Python numbers (\<^verbatim>\<open>float\<close> and
  \<^verbatim>\<open>int\<close> mixed) are modelled as \<^typ>\<open>real\<close>: finite values with exact arithmetic.
  The builtin \<^verbatim>\<open>float(s)\<close> is a parameter \<open>pf\<close> of every parser: \<open>pf s = None\<close>
  stands for \<^verbatim>\<open>ValueError\<close>.
\<close>

datatype py_exc = ValueError | KeyError | TypeError | AttributeError | StopIteration

type_synonym pyfloat = "string \<Rightarrow> real option"

definition bind_exc :: "py_exc + 'a \<Rightarrow> ('a \<Rightarrow> py_exc + 'b) \<Rightarrow> py_exc + 'b" where
  "bind_exc m f = (case m of Inl e \<Rightarrow> Inl e | Inr v \<Rightarrow> f v)"

text \<open>\<^verbatim>\<open>s.replace(c, '')\<close> for a one-character \<open>c\<close>.\<close>

definition replace_char :: "char \<Rightarrow> string \<Rightarrow> string" where
  "replace_char c s = filter (\<lambda>x. x \<noteq> c) s"

text \<open>\<^verbatim>\<open>s.strip()\<close>: the ASCII characters for which \<^verbatim>\<open>str.isspace\<close> holds.\<close>

definition is_space :: "char \<Rightarrow> bool" where
  "is_space c = (c \<in> set [CHR '' '', CHR 0x09, CHR 0x0A, CHR 0x0B, CHR 0x0C, CHR 0x0D,
                            CHR 0x1C, CHR 0x1D, CHR 0x1E, CHR 0x1F])"

definition strip :: "string \<Rightarrow> string" where
  "strip s = rev (dropWhile is_space (rev (dropWhile is_space s)))"

text \<open>\<^verbatim>\<open>s.lower()\<close> on ASCII text.\<close>

definition lower_char :: "char \<Rightarrow> char" where
  "lower_char c =
     (let n = (of_char c :: nat)
      in if of_char (CHR ''A'') \<le> n \<and> n \<le> of_char (CHR ''Z'') then char_of (n + 32) else c)"

definition lower :: "string \<Rightarrow> string" where
  "lower s = map lower_char s"

text \<open>\<^verbatim>\<open>sub in s\<close> on strings.\<close>

fun contains :: "string \<Rightarrow> string \<Rightarrow> bool" where
  "contains sub [] = (sub = [])"
| "contains sub (c # cs) = (take (length sub) (c # cs) = sub \<or> contains sub cs)"

text \<open>
  \<^verbatim>\<open>v or d\<close> for \<^verbatim>\<open>v: Optional[float]\<close>: \<^verbatim>\<open>None\<close> and \<^verbatim>\<open>0.0\<close> are falsy.
\<close>

definition or_default :: "real option \<Rightarrow> real \<Rightarrow> real" where
  "or_default v d = (case v of None \<Rightarrow> d | Some x \<Rightarrow> if x = 0 then d else x)"

section \<open>Records\<close>

text \<open>
  The option dictionaries built by the two parsers. A key that one parser does not set
  (\<^verbatim>\<open>position\<close>, \<^verbatim>\<open>spot_price\<close>) is \<open>None\<close>; \<^verbatim>\<open>market_price\<close> is always a key, with the
  Python value \<^verbatim>\<open>None\<close> modelled as \<open>None\<close>. The portfolio parser copies \<^verbatim>\<open>row['symbol']\<close>
  unconverted, so the symbol may be Python's \<^verbatim>\<open>None\<close>.
\<close>

record option_rec =
  symbol :: "string option"
  strike :: real
  option_type :: string
  market_price :: "real option"
  implied_volatility :: real
  expiry_days :: real
  position :: "real option"
  spot_price :: "real option"

text \<open>The dictionary returned by \<^verbatim>\<open>calculate_option_price\<close>.\<close>

record calculation =
  theoretical_price :: real
  delta :: real
  gamma :: real
  vega :: real
  theta :: real
  calculation_success :: bool

text \<open>
  The result dictionary of \<^verbatim>\<open>analyze_csv\<close>: the calculation's keys (\<^verbatim>\<open>**calculation\<close>)
  and the option's. The keys \<^verbatim>\<open>price_difference\<close> and \<^verbatim>\<open>price_difference_pct\<close> are set
  only in some results: \<open>None\<close> is the missing key.
\<close>

record option_result = calculation +
  res_symbol :: "string option"
  res_option_type :: string
  res_strike :: real
  res_spot_price :: real
  res_expiry_days :: real
  res_implied_volatility :: real
  res_market_price :: "real option"
  res_position :: real
  price_difference :: "real option"
  price_difference_pct :: "real option"

record portfolio_metrics_rec =
  total_value :: real
  net_delta :: real
  net_gamma :: real
  net_vega :: real
  net_theta :: real
  delta_adjusted_value :: real

record market_analysis_rec =
  options_with_market_prices :: nat
  avg_price_difference_pct :: real
  overpriced_count :: nat
  underpriced_count :: nat

record risk_metrics_rec =
  portfolio_delta_risk :: real
  portfolio_gamma_risk :: real
  portfolio_vega_risk :: real
  portfolio_theta_decay :: real

record summary_rec =
  portfolio_metrics :: portfolio_metrics_rec
  market_analysis :: market_analysis_rec
  risk_metrics :: risk_metrics_rec

text \<open>A summary is the dictionary \<^verbatim>\<open>{'error': msg}\<close> or the three groups of metrics.\<close>

datatype summary = SummaryError string | Summary summary_rec

section \<open>Field parsers\<close>

definition parse_price :: "pyfloat \<Rightarrow> string \<Rightarrow> real option" where
  "parse_price pf price_str =
     (if price_str = [] \<or> price_str = ''-'' then None
      else let clean_str = strip (replace_char (CHR 0x22) (replace_char (CHR '','') price_str))
           in if clean_str \<noteq> [] then pf clean_str else None)"

definition parse_percentage :: "pyfloat \<Rightarrow> string \<Rightarrow> real option" where
  "parse_percentage pf pct_str =
     (if pct_str = [] \<or> pct_str = ''-'' then None
      else let clean_str = strip (replace_char (CHR 0x22) (replace_char (CHR '','')
                                    (replace_char (CHR ''%'') pct_str)))
           in if clean_str \<noteq> [] then map_option (\<lambda>x. x / 100) (pf clean_str) else None)"

section \<open>The option-chain parser\<close>

text \<open>
  \<^verbatim>\<open>_estimate_expiry_days(filepath)\<close> reads the file name and the clock and always returns
  an integer; its value is the parameter \<open>expiry\<close>.
\<close>

definition chain_option :: "int \<Rightarrow> real \<Rightarrow> string \<Rightarrow> real \<Rightarrow> real option \<Rightarrow> option_rec" where
  "chain_option expiry k ty ltp iv =
     \<lparr>symbol = Some ''NIFTY'', strike = k, option_type = ty, market_price = Some ltp,
      implied_volatility = or_default iv 0.20, expiry_days = real_of_int expiry,
      position = None, spot_price = None\<rparr>"

text \<open>One iteration of the loop over the rows: the options it appends.\<close>

definition chain_row :: "pyfloat \<Rightarrow> int \<Rightarrow> string list \<Rightarrow> option_rec list" where
  "chain_row pf expiry row =
     (if length row < 23 then []
      else let strike_str = replace_char (CHR 0x22) (replace_char (CHR '','') (row ! 11))
           in if strike_str = [] \<or> strike_str = ''-'' then []
              else case pf strike_str of
                     None \<Rightarrow> []
                   | Some k \<Rightarrow>
                       let call_ltp = parse_price pf (row ! 5);
                           call_iv = parse_percentage pf (row ! 4);
                           put_ltp = parse_price pf (row ! 17);
                           put_iv = parse_percentage pf (row ! 18)
                       in (case call_ltp of
                             None \<Rightarrow> []
                           | Some c \<Rightarrow> if c > 0 then [chain_option expiry k ''call'' c call_iv]
                                       else [])
                          @ (case put_ltp of
                               None \<Rightarrow> []
                             | Some p \<Rightarrow> if p > 0 then [chain_option expiry k ''put'' p put_iv]
                                         else []))"

fun chain_rows :: "pyfloat \<Rightarrow> int \<Rightarrow> option_rec list \<Rightarrow> string list list \<Rightarrow> option_rec list" where
  "chain_rows pf expiry options [] = options"
| "chain_rows pf expiry options (row # rows) =
     chain_rows pf expiry (options @ chain_row pf expiry row) rows"

text \<open>
  The argument is what \<^verbatim>\<open>csv.reader\<close> yields for the file; \<^verbatim>\<open>next(reader)\<close> takes the
  header row and raises \<^verbatim>\<open>StopIteration\<close> on an empty file.
\<close>

definition parse_option_chain_csv ::
    "pyfloat \<Rightarrow> int \<Rightarrow> string list list \<Rightarrow> py_exc + option_rec list" where
  "parse_option_chain_csv pf expiry reader =
     (case reader of
        [] \<Rightarrow> Inl StopIteration
      | headers # rows \<Rightarrow> Inr (chain_rows pf expiry [] rows))"

section \<open>The portfolio parser\<close>

text \<open>
  A row of \<^verbatim>\<open>csv.DictReader\<close>: \<open>row k = None\<close> when \<open>k\<close> is not a key (\<^verbatim>\<open>KeyError\<close>),
  \<open>row k = Some None\<close> when the row is too short and the key holds \<^verbatim>\<open>None\<close>.
\<close>

type_synonym dict_row = "string \<rightharpoonup> string option"

definition getitem :: "dict_row \<Rightarrow> string \<Rightarrow> py_exc + string option" where
  "getitem row k = (case row k of None \<Rightarrow> Inl KeyError | Some v \<Rightarrow> Inr v)"

definition float_of :: "pyfloat \<Rightarrow> string option \<Rightarrow> py_exc + real" where
  "float_of pf v =
     (case v of
        None \<Rightarrow> Inl TypeError
      | Some s \<Rightarrow> (case pf s of None \<Rightarrow> Inl ValueError | Some x \<Rightarrow> Inr x))"

definition lower_of :: "string option \<Rightarrow> py_exc + string" where
  "lower_of v = (case v of None \<Rightarrow> Inl AttributeError | Some s \<Rightarrow> Inr (lower s))"

text \<open>The dictionary display of the loop body, its entries evaluated in order.\<close>

definition portfolio_option :: "pyfloat \<Rightarrow> dict_row \<Rightarrow> py_exc + option_rec" where
  "portfolio_option pf row =
     bind_exc (getitem row ''symbol'') (\<lambda>sym.
     bind_exc (bind_exc (getitem row ''position'') (float_of pf)) (\<lambda>pos.
     bind_exc (bind_exc (getitem row ''spot'') (float_of pf)) (\<lambda>spot.
     bind_exc (bind_exc (getitem row ''strike'') (float_of pf)) (\<lambda>k.
     bind_exc (bind_exc (getitem row ''expiry'') (float_of pf)) (\<lambda>expiry.
     bind_exc (bind_exc (getitem row ''volatility'') (float_of pf)) (\<lambda>vol.
     bind_exc (bind_exc (getitem row ''option_type'') lower_of) (\<lambda>ty.
       Inr \<lparr>symbol = sym, strike = k, option_type = ty, market_price = None,
            implied_volatility = vol, expiry_days = expiry * 365,
            position = Some pos, spot_price = Some spot\<rparr>)))))))"

fun portfolio_rows :: "pyfloat \<Rightarrow> option_rec list \<Rightarrow> dict_row list \<Rightarrow> py_exc + option_rec list" where
  "portfolio_rows pf options [] = Inr options"
| "portfolio_rows pf options (row # rows) =
     (case portfolio_option pf row of
        Inr option \<Rightarrow> portfolio_rows pf (options @ [option]) rows
      | Inl e \<Rightarrow> if e = ValueError \<or> e = KeyError then portfolio_rows pf options rows
                 else Inl e)"

definition parse_portfolio_csv :: "pyfloat \<Rightarrow> dict_row list \<Rightarrow> py_exc + option_rec list" where
  "parse_portfolio_csv pf reader = portfolio_rows pf [] reader"

section \<open>Spot estimation\<close>

definition estimate_spot_price :: "option_rec list \<Rightarrow> real" where
  "estimate_spot_price options =
     (if options = [] then 23000.0
      else let call_strikes = filter (\<lambda>opt. option_type opt = ''call'') options;
               put_strikes = filter (\<lambda>opt. option_type opt = ''put'') options
           in if call_strikes = [] \<or> put_strikes = [] then 23000.0
              else let all_strikes = map strike options
                   in if all_strikes \<noteq> [] then sum_list all_strikes / real (length all_strikes)
                      else 23000.0)"

section \<open>Analysis of one file\<close>

text \<open>
  The body of the loop of \<^verbatim>\<open>analyze_csv\<close> over the options, after the pricing call:
  the result dictionary, then the two derived keys when the market price is not \<^verbatim>\<open>None\<close>.
\<close>

definition analyze_option :: "option_rec \<Rightarrow> real \<Rightarrow> calculation \<Rightarrow> option_result" where
  "analyze_option option spot calc =
     (let result =
        \<lparr>theoretical_price = theoretical_price calc, delta = delta calc, gamma = gamma calc,
         vega = vega calc, theta = theta calc, calculation_success = calculation_success calc,
         res_symbol = symbol option, res_option_type = option_type option,
         res_strike = strike option, res_spot_price = spot,
         res_expiry_days = expiry_days option,
         res_implied_volatility = implied_volatility option,
         res_market_price = market_price option,
         res_position = (case position option of None \<Rightarrow> 1 | Some p \<Rightarrow> p),
         price_difference = None, price_difference_pct = None\<rparr>
      in case res_market_price result of
           None \<Rightarrow> result
         | Some mp \<Rightarrow>
             result\<lparr>price_difference := Some (mp - theoretical_price result),
                    price_difference_pct :=
                      Some (if theoretical_price result > 0
                            then (mp - theoretical_price result) / theoretical_price result * 100
                            else 0)\<rparr>)"

text \<open>\<^verbatim>\<open>[r[k] for r in rs]\<close>: a missing key raises \<^verbatim>\<open>KeyError\<close>.\<close>

fun getkeys :: "('a \<Rightarrow> real option) \<Rightarrow> 'a list \<Rightarrow> py_exc + real list" where
  "getkeys k [] = Inr []"
| "getkeys k (r # rs) =
     (case k r of
        None \<Rightarrow> Inl KeyError
      | Some v \<Rightarrow> bind_exc (getkeys k rs) (\<lambda>vs. Inr (v # vs)))"

definition generate_summary :: "option_result list \<Rightarrow> real \<Rightarrow> py_exc + summary" where
  "generate_summary results spot =
     (let successful_calcs = filter calculation_success results
      in if successful_calcs = [] then Inr (SummaryError ''No successful calculations'')
         else
           let total_delta = (\<Sum>r\<leftarrow>successful_calcs. delta r * res_position r);
               total_gamma = (\<Sum>r\<leftarrow>successful_calcs. gamma r * res_position r);
               total_vega = (\<Sum>r\<leftarrow>successful_calcs. vega r * res_position r);
               total_theta = (\<Sum>r\<leftarrow>successful_calcs. theta r * res_position r);
               portfolio_value = (\<Sum>r\<leftarrow>successful_calcs. theoretical_price r * res_position r);
               mispriced_options = filter (\<lambda>r. res_market_price r \<noteq> None) successful_calcs
           in bind_exc
                (if mispriced_options \<noteq> []
                 then bind_exc (getkeys price_difference_pct mispriced_options)
                        (\<lambda>pcts. Inr (sum_list (map abs pcts) / real (length mispriced_options)))
                 else Inr 0)
                (\<lambda>avg_price_diff.
                   bind_exc (getkeys price_difference mispriced_options)
                     (\<lambda>diffs. Inr (Summary
                        \<lparr>portfolio_metrics =
                           \<lparr>total_value = portfolio_value, net_delta = total_delta,
                            net_gamma = total_gamma, net_vega = total_vega,
                            net_theta = total_theta,
                            delta_adjusted_value = portfolio_value + total_delta * spot * 0.01\<rparr>,
                         market_analysis =
                           \<lparr>options_with_market_prices = length mispriced_options,
                            avg_price_difference_pct = avg_price_diff,
                            overpriced_count = length (filter (\<lambda>d. d > 0) diffs),
                            underpriced_count = length (filter (\<lambda>d. d < 0) diffs)\<rparr>,
                         risk_metrics =
                           \<lparr>portfolio_delta_risk = \<bar>total_delta\<bar> * spot * 0.01,
                            portfolio_gamma_risk = \<bar>total_gamma\<bar> * spot * spot * 0.0001,
                            portfolio_vega_risk = \<bar>total_vega\<bar> * 0.01,
                            portfolio_theta_decay = total_theta\<rparr>\<rparr>))))"

text \<open>
  The input file as \<^verbatim>\<open>analyze_csv\<close> reads it: its first line, its rows as \<^verbatim>\<open>csv.reader\<close>
  yields them and as \<^verbatim>\<open>csv.DictReader\<close> does. The pricing call \<^verbatim>\<open>calculate_option_price\<close>
  runs an external executable and is the parameter \<open>price\<close>. Of the metadata, the file
  name and the time of the analysis are left out.
\<close>

record csv_file =
  first_line :: string
  reader_rows :: "string list list"
  dict_rows :: "dict_row list"

datatype format_type = portfolio | option_chain

record metadata_rec =
  meta_format_type :: format_type
  total_options :: nat
  meta_spot_price :: real
  risk_free_rate :: real

record report_rec =
  metadata :: metadata_rec
  options :: "option_result list"
  summary :: summary

datatype report = ReportError string | Report report_rec

definition analyze_csv ::
    "pyfloat \<Rightarrow> int \<Rightarrow> (option_rec \<Rightarrow> real \<Rightarrow> real \<Rightarrow> calculation) \<Rightarrow>
     csv_file \<Rightarrow> real option \<Rightarrow> real \<Rightarrow> py_exc + report" where
  "analyze_csv pf expiry price file spot_price_arg rate =
     (let fmt = (if contains ''symbol,position,spot,strike'' (lower (first_line file))
                 then portfolio else option_chain)
      in bind_exc (case fmt of
                     portfolio \<Rightarrow> parse_portfolio_csv pf (dict_rows file)
                   | option_chain \<Rightarrow> parse_option_chain_csv pf expiry (reader_rows file))
           (\<lambda>opts.
              case opts of
                [] \<Rightarrow> Inr (ReportError ''No valid options found in CSV file'')
              | first # _ \<Rightarrow>
                  let spot = (case spot_price_arg of
                                Some s \<Rightarrow> s
                              | None \<Rightarrow>
                                  (case fmt of
                                     portfolio \<Rightarrow>
                                       (case spot_price first of None \<Rightarrow> 23000.0 | Some s \<Rightarrow> s)
                                   | option_chain \<Rightarrow> estimate_spot_price opts));
                      results = map (\<lambda>option. analyze_option option spot (price option spot rate))
                                  opts
                  in bind_exc (generate_summary results spot)
                       (\<lambda>sm. Inr (Report
                          \<lparr>metadata = \<lparr>meta_format_type = fmt, total_options = length results,
                                        meta_spot_price = spot, risk_free_rate = rate\<rparr>,
                           options = results, summary = sm\<rparr>))))"

section \<open>Decimal literals\<close>

text \<open>
  The plain decimal literals that \<^verbatim>\<open>float()\<close> accepts (an optional sign, digits, at most
  one point, at least one digit), with their values: the instance of \<open>pf\<close> at which the
  parsers are run on concrete rows.
\<close>

definition digit_of :: "char \<Rightarrow> nat option" where
  "digit_of c =
     (let n = (of_char c :: nat)
      in if of_char (CHR ''0'') \<le> n \<and> n \<le> of_char (CHR ''9'')
         then Some (n - of_char (CHR ''0'')) else None)"

fun digits_of :: "nat \<Rightarrow> string \<Rightarrow> nat option" where
  "digits_of acc [] = Some acc"
| "digits_of acc (c # cs) =
     (case digit_of c of None \<Rightarrow> None | Some d \<Rightarrow> digits_of (10 * acc + d) cs)"

definition unsigned_decimal :: "string \<Rightarrow> real option" where
  "unsigned_decimal s =
     (let ip = takeWhile (\<lambda>c. c \<noteq> CHR ''.'') s;
          fp = drop 1 (dropWhile (\<lambda>c. c \<noteq> CHR ''.'') s)
      in if ip = [] \<and> fp = [] then None
         else case digits_of 0 ip of
                None \<Rightarrow> None
              | Some i \<Rightarrow>
                  (case digits_of 0 fp of
                     None \<Rightarrow> None
                   | Some f \<Rightarrow> Some (real i + real f / 10 ^ length fp)))"

definition decimal_float :: pyfloat where
  "decimal_float s =
     (case s of
        [] \<Rightarrow> None
      | c # cs \<Rightarrow>
          if c = CHR ''-'' then map_option uminus (unsigned_decimal cs)
          else if c = CHR ''+'' then unsigned_decimal cs
          else unsigned_decimal s)"

section \<open>Concrete inputs\<close>

text \<open>\<^verbatim>\<open>_default_option_result\<close>: what the pricing call returns when it fails.\<close>

definition default_option_result :: calculation where
  "default_option_result =
     \<lparr>theoretical_price = 0.0, delta = 0.0, gamma = 0.0, vega = 0.0, theta = 0.0,
      calculation_success = False\<rparr>"

text \<open>A pricing call that always succeeds with the same figures.\<close>

definition fixed_price :: "option_rec \<Rightarrow> real \<Rightarrow> real \<Rightarrow> calculation" where
  "fixed_price option spot rate =
     \<lparr>theoretical_price = 4.0, delta = 0.52, gamma = 0.03, vega = 12.0, theta = -5.0,
      calculation_success = True\<rparr>"

text \<open>A successful result with delta 0.5 and position 2, and a failed one with position 10.\<close>

definition priced_result :: option_result where
  "priced_result =
     \<lparr>theoretical_price = 4.0, delta = 0.5, gamma = 0.03, vega = 12.0, theta = -5.0,
      calculation_success = True,
      res_symbol = Some ''NIFTY'', res_option_type = ''call'', res_strike = 100,
      res_spot_price = 100, res_expiry_days = 30, res_implied_volatility = 0.2,
      res_market_price = None, res_position = 2,
      price_difference = None, price_difference_pct = None\<rparr>"

definition failed_result :: option_result where
  "failed_result =
     \<lparr>theoretical_price = 7.0, delta = 0.9, gamma = 0.01, vega = 3.0, theta = -1.0,
      calculation_success = False,
      res_symbol = Some ''NIFTY'', res_option_type = ''put'', res_strike = 100,
      res_spot_price = 100, res_expiry_days = 30, res_implied_volatility = 0.2,
      res_market_price = Some 6.0, res_position = 10,
      price_difference = Some (-1.0), price_difference_pct = Some (-14.0)\<rparr>"

text \<open>
  A row of an option chain with a call (IV 15.5 per cent, LTP 120.50), the strike
  23,000.00 and a put (LTP 80.25, no IV); the same row with the call IV given as 0.00;
  a header row.
\<close>

definition quoted_row :: "string list" where
  "quoted_row =
     [''-'', ''-'', ''-'', ''-'', ''15.5'', ''120.50'', ''-'', ''-'', ''-'', ''-'', ''-'',
      ''23,000.00'', ''-'', ''-'', ''-'', ''-'', ''-'', ''80.25'', ''-'', ''-'', ''-'', ''-'',
      ''-'']"

definition zero_iv_row :: "string list" where
  "zero_iv_row = quoted_row[4 := ''0.00'']"

definition header_row :: "string list" where
  "header_row = [''CALLS'', [], ''PUTS'']"

definition chain_file :: csv_file where
  "chain_file =
     \<lparr>first_line = ''CALLS,,PUTS'', reader_rows = [header_row, quoted_row], dict_rows = []\<rparr>"

text \<open>Three calls with strikes 90, 100, 110; the same strikes with a put among them.\<close>

definition calls_only :: "option_rec list" where
  "calls_only =
     [chain_option 30 90 ''call'' 12 None, chain_option 30 100 ''call'' 5 None,
      chain_option 30 110 ''call'' 1 None]"

definition calls_and_put :: "option_rec list" where
  "calls_and_put =
     [chain_option 30 90 ''call'' 12 None, chain_option 30 100 ''put'' 4 None,
      chain_option 30 110 ''call'' 1 None]"

text \<open>
  Rows of a portfolio file: one call written \<^verbatim>\<open>Call\<close>, and one whose option type is
  \<^verbatim>\<open>Straddle\<close>.
\<close>

definition position_row :: dict_row where
  "position_row =
     map_of [(''symbol'', Some ''AAPL''), (''position'', Some ''1''), (''spot'', Some ''100''),
             (''strike'', Some ''100''), (''expiry'', Some ''0.25''),
             (''volatility'', Some ''0.2''), (''option_type'', Some ''Call'')]"

definition straddle_row :: dict_row where
  "straddle_row = position_row(''option_type'' \<mapsto> Some ''Straddle'')"

definition portfolio_file :: csv_file where
  "portfolio_file =
     \<lparr>first_line = ''symbol,position,spot,strike,expiry,volatility,option_type'',
      reader_rows = [], dict_rows = [position_row]\<rparr>"

text \<open>A pricing call that always fails.\<close>

definition failed_price :: "option_rec \<Rightarrow> real \<Rightarrow> real \<Rightarrow> calculation" where
  "failed_price option spot rate = default_option_result"

section \<open>Auxiliary facts\<close>

lemma bind_exc_Inr [simp]: "bind_exc (Inr v) f = f v"
  by (simp add: bind_exc_def)

lemma bind_exc_Inl [simp]: "bind_exc (Inl e) f = Inl e"
  by (simp add: bind_exc_def)

lemma bind_exc_eq_Inr:
  "bind_exc m f = Inr y \<longleftrightarrow> (\<exists>v. m = Inr v \<and> f v = Inr y)"
  by (cases m) simp_all

lemma getkeys_present:
  "(\<forall>r\<in>set rs. k r \<noteq> None) \<Longrightarrow> getkeys k rs = Inr (map (\<lambda>r. the (k r)) rs)"
  by (induction rs) auto

lemma generate_summary_filter:
  "generate_summary results spot = generate_summary (filter calculation_success results) spot"
  by (simp add: generate_summary_def)

lemma generate_summary_Summary:
  assumes ok: "filter calculation_success results \<noteq> []"
      and keys: "\<forall>r\<in>set results. calculation_success r \<and> res_market_price r \<noteq> None \<longrightarrow>
                   price_difference r \<noteq> None \<and> price_difference_pct r \<noteq> None"
  shows "\<exists>s. generate_summary results spot = Inr (Summary s)
           \<and> net_delta (portfolio_metrics s)
               = (\<Sum>r\<leftarrow>filter calculation_success results. delta r * res_position r)
           \<and> net_gamma (portfolio_metrics s)
               = (\<Sum>r\<leftarrow>filter calculation_success results. gamma r * res_position r)
           \<and> net_vega (portfolio_metrics s)
               = (\<Sum>r\<leftarrow>filter calculation_success results. vega r * res_position r)
           \<and> net_theta (portfolio_metrics s)
               = (\<Sum>r\<leftarrow>filter calculation_success results. theta r * res_position r)
           \<and> total_value (portfolio_metrics s)
               = (\<Sum>r\<leftarrow>filter calculation_success results. theoretical_price r * res_position r)"
proof -
  let ?m = "filter (\<lambda>r. res_market_price r \<noteq> None) (filter calculation_success results)"
  have pcts: "getkeys price_difference_pct ?m = Inr (map (\<lambda>r. the (price_difference_pct r)) ?m)"
    using keys by (intro getkeys_present) auto
  have diffs: "getkeys price_difference ?m = Inr (map (\<lambda>r. the (price_difference r)) ?m)"
    using keys by (intro getkeys_present) auto
  show ?thesis
    using ok
    by (simp add: generate_summary_def Let_def pcts diffs del: filter_filter not_None_eq)
qed

section \<open>The portfolio summary\<close>

lemma generate_summary_totals:
  assumes "generate_summary results spot = Inr (Summary s)"
  shows "net_delta (portfolio_metrics s)
           = (\<Sum>r\<leftarrow>filter calculation_success results. delta r * res_position r)
       \<and> net_gamma (portfolio_metrics s)
           = (\<Sum>r\<leftarrow>filter calculation_success results. gamma r * res_position r)
       \<and> net_vega (portfolio_metrics s)
           = (\<Sum>r\<leftarrow>filter calculation_success results. vega r * res_position r)
       \<and> net_theta (portfolio_metrics s)
           = (\<Sum>r\<leftarrow>filter calculation_success results. theta r * res_position r)
       \<and> total_value (portfolio_metrics s)
           = (\<Sum>r\<leftarrow>filter calculation_success results. theoretical_price r * res_position r)"
  using assms
  by (auto simp: generate_summary_def Let_def bind_exc_eq_Inr split: if_splits)

text \<open>
  C1. A failed result \<open>f\<close> anywhere in the sequence, whatever its Greeks and position,
  leaves the summary as it is without \<open>f\<close>. In every summary that is produced, the net
  Greeks and the portfolio value are the sums of \<open>greek * position\<close> (of
  \<open>theoretical_price * position\<close>) over the successful results only. A summary is
  produced when the sequence has a successful result and every successful result with a
  market price carries the two derived keys, as \<^verbatim>\<open>analyze_csv\<close> builds them.
\<close>

theorem summary_totals_successful_only:
  "(\<not> calculation_success f \<longrightarrow>
      generate_summary (pre @ f # post) spot = generate_summary (pre @ post) spot)
   \<and> (generate_summary results spot = Inr (Summary s) \<longrightarrow>
        net_delta (portfolio_metrics s)
          = (\<Sum>r\<leftarrow>filter calculation_success results. delta r * res_position r)
      \<and> net_gamma (portfolio_metrics s)
          = (\<Sum>r\<leftarrow>filter calculation_success results. gamma r * res_position r)
      \<and> net_vega (portfolio_metrics s)
          = (\<Sum>r\<leftarrow>filter calculation_success results. vega r * res_position r)
      \<and> net_theta (portfolio_metrics s)
          = (\<Sum>r\<leftarrow>filter calculation_success results. theta r * res_position r)
      \<and> total_value (portfolio_metrics s)
          = (\<Sum>r\<leftarrow>filter calculation_success results. theoretical_price r * res_position r))
   \<and> ((\<exists>r\<in>set results. calculation_success r)
        \<and> (\<forall>r\<in>set results. calculation_success r \<and> res_market_price r \<noteq> None \<longrightarrow>
               price_difference r \<noteq> None \<and> price_difference_pct r \<noteq> None) \<longrightarrow>
      (\<exists>sm. generate_summary results spot = Inr (Summary sm)))"
proof (intro conjI impI)
  assume failed: "\<not> calculation_success f"
  then have "filter calculation_success (pre @ f # post) = filter calculation_success (pre @ post)"
    by simp
  with generate_summary_filter [of "pre @ f # post" spot]
       generate_summary_filter [of "pre @ post" spot]
  show "generate_summary (pre @ f # post) spot = generate_summary (pre @ post) spot"
    by simp
next
  assume sm: "generate_summary results spot = Inr (Summary s)"
  note totals = generate_summary_totals [OF sm]
  from totals show "net_delta (portfolio_metrics s)
          = (\<Sum>r\<leftarrow>filter calculation_success results. delta r * res_position r)"
    by blast
  from totals show "net_gamma (portfolio_metrics s)
          = (\<Sum>r\<leftarrow>filter calculation_success results. gamma r * res_position r)"
    by blast
  from totals show "net_vega (portfolio_metrics s)
          = (\<Sum>r\<leftarrow>filter calculation_success results. vega r * res_position r)"
    by blast
  from totals show "net_theta (portfolio_metrics s)
          = (\<Sum>r\<leftarrow>filter calculation_success results. theta r * res_position r)"
    by blast
  from totals show "total_value (portfolio_metrics s)
          = (\<Sum>r\<leftarrow>filter calculation_success results. theoretical_price r * res_position r)"
    by blast
next
  assume h: "(\<exists>r\<in>set results. calculation_success r)
        \<and> (\<forall>r\<in>set results. calculation_success r \<and> res_market_price r \<noteq> None \<longrightarrow>
               price_difference r \<noteq> None \<and> price_difference_pct r \<noteq> None)"
  then have nonempty: "filter calculation_success results \<noteq> []"
    by (auto simp: filter_empty_conv)
  from h have keys: "\<forall>r\<in>set results. calculation_success r \<and> res_market_price r \<noteq> None \<longrightarrow>
               price_difference r \<noteq> None \<and> price_difference_pct r \<noteq> None"
    by blast
  from generate_summary_Summary [OF nonempty keys, of spot]
  show "\<exists>sm. generate_summary results spot = Inr (Summary sm)"
    by blast
qed

theorem summary_totals_successful_only_witness:
  "calculation_success priced_result \<and> delta priced_result = 0.5
   \<and> res_position priced_result = 2
   \<and> \<not> calculation_success failed_result \<and> res_position failed_result = 10
   \<and> generate_summary [priced_result, failed_result] 100
       = generate_summary [priced_result] 100
   \<and> (\<exists>s. generate_summary [priced_result, failed_result] 100 = Inr (Summary s)
          \<and> net_delta (portfolio_metrics s) = 1.0)"
proof -
  have failed: "\<not> calculation_success failed_result"
    by (simp add: failed_result_def)
  have ok: "(\<exists>r\<in>set [priced_result, failed_result]. calculation_success r)
        \<and> (\<forall>r\<in>set [priced_result, failed_result].
               calculation_success r \<and> res_market_price r \<noteq> None \<longrightarrow>
               price_difference r \<noteq> None \<and> price_difference_pct r \<noteq> None)"
    by (simp add: priced_result_def failed_result_def)
  from summary_totals_successful_only [of failed_result "[priced_result]" "[]" 100] failed
  have skip: "generate_summary [priced_result, failed_result] 100
                = generate_summary [priced_result] 100"
    by simp
  from summary_totals_successful_only [of failed_result "[priced_result]" "[]" 100
         "[priced_result, failed_result]"] ok
  obtain s where s: "generate_summary [priced_result, failed_result] 100 = Inr (Summary s)"
    by blast
  with summary_totals_successful_only [of failed_result "[priced_result]" "[]" 100
         "[priced_result, failed_result]" s]
  have "net_delta (portfolio_metrics s)
          = (\<Sum>r\<leftarrow>filter calculation_success [priced_result, failed_result].
               delta r * res_position r)"
    by blast
  then have "net_delta (portfolio_metrics s) = 1.0"
    by (simp add: priced_result_def failed_result_def)
  with s have "\<exists>s. generate_summary [priced_result, failed_result] 100 = Inr (Summary s)
                 \<and> net_delta (portfolio_metrics s) = 1.0"
    by blast
  moreover have "calculation_success priced_result" "delta priced_result = 0.5"
    "res_position priced_result = 2" "res_position failed_result = 10"
    by (simp_all add: priced_result_def failed_result_def)
  ultimately show ?thesis
    using skip failed by blast
qed

text \<open>
  C7. With no successful result the summary is the error marker. With a successful
  result, none of the successful ones carrying a market price, the summary is produced
  and its average price difference is 0.
\<close>

theorem summary_degenerate_cases:
  "((\<forall>r\<in>set results. \<not> calculation_success r) \<longrightarrow>
      generate_summary results spot = Inr (SummaryError ''No successful calculations''))
   \<and> ((\<exists>r\<in>set results. calculation_success r)
        \<and> (\<forall>r\<in>set results. calculation_success r \<longrightarrow> res_market_price r = None) \<longrightarrow>
      (\<exists>s. generate_summary results spot = Inr (Summary s)
           \<and> avg_price_difference_pct (market_analysis s) = 0))"
proof (intro conjI impI)
  assume "\<forall>r\<in>set results. \<not> calculation_success r"
  then have "filter calculation_success results = []"
    by (simp add: filter_empty_conv)
  then show "generate_summary results spot = Inr (SummaryError ''No successful calculations'')"
    by (simp add: generate_summary_def)
next
  assume h: "(\<exists>r\<in>set results. calculation_success r)
             \<and> (\<forall>r\<in>set results. calculation_success r \<longrightarrow> res_market_price r = None)"
  then have nonempty: "filter calculation_success results \<noteq> []"
    by (simp add: filter_empty_conv)
  have none: "filter (\<lambda>r. res_market_price r \<noteq> None) (filter calculation_success results) = []"
    using h by (auto simp: filter_empty_conv)
  show "\<exists>s. generate_summary results spot = Inr (Summary s)
           \<and> avg_price_difference_pct (market_analysis s) = 0"
    using nonempty
    by (simp add: generate_summary_def Let_def none del: filter_filter not_None_eq)
qed

theorem summary_degenerate_cases_witness:
  "\<not> calculation_success failed_result
   \<and> generate_summary [failed_result] 100 = Inr (SummaryError ''No successful calculations'')
   \<and> calculation_success priced_result \<and> res_market_price priced_result = None
   \<and> (\<exists>s. generate_summary [priced_result, failed_result] 100 = Inr (Summary s)
          \<and> avg_price_difference_pct (market_analysis s) = 0)"
proof -
  have none: "\<forall>r\<in>set [failed_result]. \<not> calculation_success r"
    by (simp add: failed_result_def)
  have some: "(\<exists>r\<in>set [priced_result, failed_result]. calculation_success r)
              \<and> (\<forall>r\<in>set [priced_result, failed_result].
                    calculation_success r \<longrightarrow> res_market_price r = None)"
    by (simp add: priced_result_def failed_result_def)
  from summary_degenerate_cases [of "[failed_result]" 100] none
  have err: "generate_summary [failed_result] 100
               = Inr (SummaryError ''No successful calculations'')"
    by blast
  from summary_degenerate_cases [of "[priced_result, failed_result]" 100] some
  have "\<exists>s. generate_summary [priced_result, failed_result] 100 = Inr (Summary s)
           \<and> avg_price_difference_pct (market_analysis s) = 0"
    by blast
  with err show ?thesis
    by (simp add: priced_result_def failed_result_def)
qed

section \<open>The estimated spot price\<close>

text \<open>
  C2 as stated fails: for the three calls with strikes 90, 100 and 110, a non-empty
  sequence whose mean strike is 100, the estimate is the fallback 23000.
\<close>

theorem estimate_spot_price_only_calls:
  "map strike calls_only = [90, 100, 110]
   \<and> map option_type calls_only = [''call'', ''call'', ''call'']
   \<and> sum_list (map strike calls_only) / real (length calls_only) = 100
   \<and> estimate_spot_price calls_only = 23000.0"
  by (simp add: calls_only_def chain_option_def estimate_spot_price_def)

text \<open>
  C2, amended. The estimate is the arithmetic mean of all strikes when the sequence has
  at least one call and at least one put; it is the fallback 23000 when the sequence is
  empty, has no call or has no put.
\<close>

theorem estimate_spot_price_cases:
  "(opts = [] \<longrightarrow> estimate_spot_price opts = 23000.0)
   \<and> ((\<exists>opt\<in>set opts. option_type opt = ''call'')
        \<and> (\<exists>opt\<in>set opts. option_type opt = ''put'') \<longrightarrow>
      estimate_spot_price opts = sum_list (map strike opts) / real (length opts))
   \<and> ((\<forall>opt\<in>set opts. option_type opt \<noteq> ''call'')
        \<or> (\<forall>opt\<in>set opts. option_type opt \<noteq> ''put'') \<longrightarrow>
      estimate_spot_price opts = 23000.0)"
proof (intro conjI impI)
  assume "opts = []"
  then show "estimate_spot_price opts = 23000.0"
    by (simp add: estimate_spot_price_def)
next
  assume both: "(\<exists>opt\<in>set opts. option_type opt = ''call'')
                \<and> (\<exists>opt\<in>set opts. option_type opt = ''put'')"
  then have "opts \<noteq> []"
    by auto
  moreover have "filter (\<lambda>opt. option_type opt = ''call'') opts \<noteq> []"
    using both by (simp add: filter_empty_conv)
  moreover have "filter (\<lambda>opt. option_type opt = ''put'') opts \<noteq> []"
    using both by (simp add: filter_empty_conv)
  ultimately show "estimate_spot_price opts
                     = sum_list (map strike opts) / real (length opts)"
    by (simp add: estimate_spot_price_def)
next
  assume "(\<forall>opt\<in>set opts. option_type opt \<noteq> ''call'')
          \<or> (\<forall>opt\<in>set opts. option_type opt \<noteq> ''put'')"
  then have "filter (\<lambda>opt. option_type opt = ''call'') opts = []
             \<or> filter (\<lambda>opt. option_type opt = ''put'') opts = []"
    by (simp add: filter_empty_conv)
  then show "estimate_spot_price opts = 23000.0"
    by (auto simp: estimate_spot_price_def)
qed

theorem estimate_spot_price_cases_witness:
  "estimate_spot_price [] = 23000.0
   \<and> map strike calls_and_put = [90, 100, 110]
   \<and> estimate_spot_price calls_and_put = 100
   \<and> estimate_spot_price calls_only = 23000.0"
proof -
  have "estimate_spot_price [] = 23000.0"
    using estimate_spot_price_cases [of "[]"] by simp
  moreover have "estimate_spot_price calls_and_put
                   = sum_list (map strike calls_and_put) / real (length calls_and_put)"
    using estimate_spot_price_cases [of calls_and_put]
    by (simp add: calls_and_put_def chain_option_def)
  moreover have "estimate_spot_price calls_only = 23000.0"
    using estimate_spot_price_cases [of calls_only]
    by (simp add: calls_only_def chain_option_def)
  ultimately show ?thesis
    by (simp add: calls_and_put_def chain_option_def)
qed

section \<open>Rows of the option chain\<close>

lemma chain_rows_concat:
  "chain_rows pf expiry acc rows = acc @ concat (map (chain_row pf expiry) rows)"
  by (induction rows arbitrary: acc) simp_all

lemma parse_option_chain_csv_at:
  "parse_option_chain_csv pf expiry (headers # pre @ row # post)
     = Inr (chain_rows pf expiry [] pre @ chain_row pf expiry row @ chain_rows pf expiry [] post)"
  by (simp add: parse_option_chain_csv_def chain_rows_concat)

lemma chain_row_parsed:
  assumes "23 \<le> length row"
      and "replace_char (CHR 0x22) (replace_char (CHR '','') (row ! 11)) \<noteq> []"
      and "replace_char (CHR 0x22) (replace_char (CHR '','') (row ! 11)) \<noteq> ''-''"
      and "pf (replace_char (CHR 0x22) (replace_char (CHR '','') (row ! 11))) = Some k"
  shows "chain_row pf expiry row =
           (case parse_price pf (row ! 5) of
              None \<Rightarrow> []
            | Some c \<Rightarrow> if c > 0
                        then [chain_option expiry k ''call'' c (parse_percentage pf (row ! 4))]
                        else [])
           @ (case parse_price pf (row ! 17) of
                None \<Rightarrow> []
              | Some p \<Rightarrow> if p > 0
                          then [chain_option expiry k ''put'' p (parse_percentage pf (row ! 18))]
                          else [])"
  using assms by (simp add: chain_row_def Let_def)

text \<open>
  C4. For a row with at least 23 columns whose strike field parses (to \<open>k\<close>): a call is
  emitted exactly when the call LTP (column 5) parses to a positive value, a put exactly
  when the put LTP (column 17) does, each at most once, so the row yields at most two
  options; when both LTPs are positive it yields exactly two, a call and a put with
  the strike \<open>k\<close>. The parser's output holds the row's options in the row's place.
\<close>

theorem chain_row_call_and_put:
  assumes len: "23 \<le> length row"
      and nonblank: "replace_char (CHR 0x22) (replace_char (CHR '','') (row ! 11)) \<noteq> []"
      and nondash: "replace_char (CHR 0x22) (replace_char (CHR '','') (row ! 11)) \<noteq> ''-''"
      and strike: "pf (replace_char (CHR 0x22) (replace_char (CHR '','') (row ! 11))) = Some k"
  shows "((\<exists>opt\<in>set (chain_row pf expiry row). option_type opt = ''call'')
            \<longleftrightarrow> (\<exists>c. parse_price pf (row ! 5) = Some c \<and> 0 < c))
       \<and> ((\<exists>opt\<in>set (chain_row pf expiry row). option_type opt = ''put'')
            \<longleftrightarrow> (\<exists>p. parse_price pf (row ! 17) = Some p \<and> 0 < p))
       \<and> length (filter (\<lambda>opt. option_type opt = ''call'') (chain_row pf expiry row)) \<le> 1
       \<and> length (filter (\<lambda>opt. option_type opt = ''put'') (chain_row pf expiry row)) \<le> 1
       \<and> length (chain_row pf expiry row) \<le> 2
       \<and> (\<forall>c p. parse_price pf (row ! 5) = Some c \<and> 0 < c
                 \<and> parse_price pf (row ! 17) = Some p \<and> 0 < p \<longrightarrow>
              (\<exists>co po. chain_row pf expiry row = [co, po]
                 \<and> option_type co = ''call'' \<and> market_price co = Some c \<and> strike co = k
                 \<and> option_type po = ''put'' \<and> market_price po = Some p \<and> strike po = k))
       \<and> parse_option_chain_csv pf expiry (headers # pre @ row # post)
           = Inr (chain_rows pf expiry [] pre @ chain_row pf expiry row
                  @ chain_rows pf expiry [] post)"
  unfolding chain_row_parsed [where pf = pf and row = row and k = k, OF len nonblank nondash strike]
            parse_option_chain_csv_at
  by (auto simp: chain_option_def split: option.splits)


text \<open>The parsers on the concrete rows.\<close>

lemma decimal_float_strike: "decimal_float ''23000.00'' = Some 23000"
  by (simp add: decimal_float_def unsigned_decimal_def digit_of_def)

lemma decimal_float_call_ltp: "decimal_float ''120.50'' = Some 120.5"
  by (simp add: decimal_float_def unsigned_decimal_def digit_of_def)

lemma decimal_float_put_ltp: "decimal_float ''80.25'' = Some 80.25"
  by (simp add: decimal_float_def unsigned_decimal_def digit_of_def)

lemma decimal_float_call_iv: "decimal_float ''15.5'' = Some 15.5"
  by (simp add: decimal_float_def unsigned_decimal_def digit_of_def)

lemma decimal_float_zero: "decimal_float ''0.00'' = Some 0"
  by (simp add: decimal_float_def unsigned_decimal_def digit_of_def)

lemma parse_price_call_ltp: "parse_price decimal_float ''120.50'' = Some 120.5"
  by (simp add: parse_price_def replace_char_def strip_def is_space_def decimal_float_call_ltp)

lemma parse_price_put_ltp: "parse_price decimal_float ''80.25'' = Some 80.25"
  by (simp add: parse_price_def replace_char_def strip_def is_space_def decimal_float_put_ltp)

lemma parse_percentage_call_iv: "parse_percentage decimal_float ''15.5'' = Some 0.155"
  by (simp add: parse_percentage_def replace_char_def strip_def is_space_def
        decimal_float_call_iv)

lemma parse_percentage_zero: "parse_percentage decimal_float ''0.00'' = Some 0"
  by (simp add: parse_percentage_def replace_char_def strip_def is_space_def decimal_float_zero)

lemma parse_percentage_dash: "parse_percentage pf ''-'' = None"
  by (simp add: parse_percentage_def)

lemma quoted_row_fields:
  "length quoted_row = 23"
  "replace_char (CHR 0x22) (replace_char (CHR '','') (quoted_row ! 11)) = ''23000.00''"
  "quoted_row ! 4 = ''15.5''" "quoted_row ! 5 = ''120.50''"
  "quoted_row ! 17 = ''80.25''" "quoted_row ! 18 = ''-''"
  by (simp_all add: quoted_row_def replace_char_def)

lemma zero_iv_row_fields:
  "length zero_iv_row = 23"
  "replace_char (CHR 0x22) (replace_char (CHR '','') (zero_iv_row ! 11)) = ''23000.00''"
  "zero_iv_row ! 4 = ''0.00''" "zero_iv_row ! 5 = ''120.50''"
  "zero_iv_row ! 17 = ''80.25''" "zero_iv_row ! 18 = ''-''"
  by (simp_all add: zero_iv_row_def quoted_row_def replace_char_def)

lemma chain_row_quoted_row:
  "chain_row decimal_float 30 quoted_row =
     [chain_option 30 23000 ''call'' 120.5 (Some 0.155),
      chain_option 30 23000 ''put'' 80.25 None]"
  by (simp add: chain_row_def quoted_row_fields decimal_float_strike parse_price_call_ltp
        parse_price_put_ltp parse_percentage_call_iv parse_percentage_dash)

lemma chain_row_zero_iv_row:
  "chain_row decimal_float 30 zero_iv_row =
     [chain_option 30 23000 ''call'' 120.5 (Some 0),
      chain_option 30 23000 ''put'' 80.25 None]"
  by (simp add: chain_row_def zero_iv_row_fields decimal_float_strike parse_price_call_ltp
        parse_price_put_ltp parse_percentage_zero parse_percentage_dash)

theorem chain_row_call_and_put_witness:
  "23 \<le> length quoted_row
   \<and> parse_price decimal_float (quoted_row ! 5) = Some 120.5
   \<and> parse_price decimal_float (quoted_row ! 17) = Some 80.25
   \<and> (\<exists>co po. chain_row decimal_float 30 quoted_row = [co, po]
          \<and> option_type co = ''call'' \<and> market_price co = Some 120.5 \<and> strike co = 23000
          \<and> option_type po = ''put'' \<and> market_price po = Some 80.25 \<and> strike po = 23000)
   \<and> parse_option_chain_csv decimal_float 30 ([header_row] @ [quoted_row])
       = Inr (chain_row decimal_float 30 quoted_row)"
proof -
  have len: "23 \<le> length quoted_row"
    by (simp add: quoted_row_fields)
  have nonblank: "replace_char (CHR 0x22) (replace_char (CHR '','') (quoted_row ! 11)) \<noteq> []"
    by (simp add: quoted_row_fields)
  have nondash: "replace_char (CHR 0x22) (replace_char (CHR '','') (quoted_row ! 11)) \<noteq> ''-''"
    by (simp add: quoted_row_fields)
  have strike: "decimal_float (replace_char (CHR 0x22) (replace_char (CHR '','') (quoted_row ! 11)))
                  = Some 23000"
    by (simp add: quoted_row_fields decimal_float_strike)
  have call: "parse_price decimal_float (quoted_row ! 5) = Some 120.5"
    by (simp add: quoted_row_fields parse_price_call_ltp)
  have put: "parse_price decimal_float (quoted_row ! 17) = Some 80.25"
    by (simp add: quoted_row_fields parse_price_put_ltp)
  note inst = chain_row_call_and_put [where pf = decimal_float and row = quoted_row
               and k = 23000 and expiry = 30 and headers = header_row and pre = "[]"
               and post = "[]", OF len nonblank nondash strike]
  from inst call put
  have two: "\<exists>co po. chain_row decimal_float 30 quoted_row = [co, po]
          \<and> option_type co = ''call'' \<and> market_price co = Some 120.5 \<and> strike co = 23000
          \<and> option_type po = ''put'' \<and> market_price po = Some 80.25 \<and> strike po = 23000"
    by simp
  from inst have "parse_option_chain_csv decimal_float 30 ([header_row] @ [quoted_row])
                   = Inr (chain_row decimal_float 30 quoted_row)"
    by simp
  with len call put two show ?thesis
    by blast
qed

text \<open>
  C5. A row with fewer than 23 columns, or whose strike field without commas and quotes
  is empty or \<^verbatim>\<open>-\<close>, yields no option; the parser does not raise on it and returns what
  it returns for the other rows.
\<close>

theorem chain_row_skipped:
  assumes "length row < 23
           \<or> replace_char (CHR 0x22) (replace_char (CHR '','') (row ! 11)) = []
           \<or> replace_char (CHR 0x22) (replace_char (CHR '','') (row ! 11)) = ''-''"
  shows "chain_row pf expiry row = []
       \<and> parse_option_chain_csv pf expiry (headers # pre @ row # post)
           = Inr (chain_rows pf expiry [] pre @ chain_rows pf expiry [] post)
       \<and> parse_option_chain_csv pf expiry (headers # pre @ row # post)
           = parse_option_chain_csv pf expiry (headers # pre @ post)"
proof -
  have skipped: "chain_row pf expiry row = []"
    using assms by (auto simp: chain_row_def)
  then show ?thesis
    by (simp add: parse_option_chain_csv_def chain_rows_concat)
qed

theorem chain_row_skipped_witness:
  "length header_row < 23
   \<and> chain_row decimal_float 30 header_row = []
   \<and> replace_char (CHR 0x22) (replace_char (CHR '','') ((quoted_row[11 := ''-'']) ! 11)) = ''-''
   \<and> chain_row decimal_float 30 (quoted_row[11 := ''-'']) = []
   \<and> replace_char (CHR 0x22) (replace_char (CHR '','') ((quoted_row[11 := '',,'']) ! 11)) = []
   \<and> chain_row decimal_float 30 (quoted_row[11 := '',,'']) = []
   \<and> parse_option_chain_csv decimal_float 30
        (header_row # [header_row, quoted_row[11 := '',,'']] @ quoted_row[11 := ''-'']
           # [quoted_row])
       = Inr (chain_row decimal_float 30 quoted_row)
   \<and> length (chain_row decimal_float 30 quoted_row) = 2"
proof -
  have short: "length header_row < 23"
    by (simp add: header_row_def)
  have dash: "replace_char (CHR 0x22) (replace_char (CHR '','') ((quoted_row[11 := ''-'']) ! 11))
                = ''-''"
    by (simp add: quoted_row_def replace_char_def)
  have blank: "replace_char (CHR 0x22) (replace_char (CHR '','') ((quoted_row[11 := '',,'']) ! 11))
                = []"
    by (simp add: quoted_row_def replace_char_def)
  have a: "chain_row decimal_float 30 header_row = []"
    using chain_row_skipped [of header_row decimal_float 30 header_row "[]" "[]"] short
    by blast
  have b: "chain_row decimal_float 30 (quoted_row[11 := '',,'']) = []"
    using chain_row_skipped [of "quoted_row[11 := '',,'']" decimal_float 30 header_row "[]" "[]"]
          blank
    by blast
  have c: "chain_row decimal_float 30 (quoted_row[11 := ''-'']) = []
           \<and> parse_option_chain_csv decimal_float 30
               (header_row # [header_row, quoted_row[11 := '',,'']] @ quoted_row[11 := ''-'']
                  # [quoted_row])
             = Inr (chain_rows decimal_float 30 [] [header_row, quoted_row[11 := '',,'']]
                    @ chain_rows decimal_float 30 [] [quoted_row])"
    using chain_row_skipped [of "quoted_row[11 := ''-'']" decimal_float 30 header_row
            "[header_row, quoted_row[11 := '',,'']]" "[quoted_row]"] dash
    by blast
  have d: "chain_rows decimal_float 30 [] [header_row, quoted_row[11 := '',,'']] = []"
    by (simp add: a b)
  have e: "chain_rows decimal_float 30 [] [quoted_row] = chain_row decimal_float 30 quoted_row"
    by simp
  have f: "length (chain_row decimal_float 30 quoted_row) = 2"
    by (simp add: chain_row_quoted_row)
  from short dash blank a b c d e f show ?thesis
    by simp
qed

section \<open>Implied volatility\<close>

lemma chain_row_member:
  assumes "opt \<in> set (chain_row pf expiry row)"
  shows "23 \<le> length row
       \<and> ((option_type opt = ''call'' \<and> market_price opt = parse_price pf (row ! 5)
            \<and> implied_volatility opt = or_default (parse_percentage pf (row ! 4)) 0.20)
          \<or> (option_type opt = ''put'' \<and> market_price opt = parse_price pf (row ! 17)
            \<and> implied_volatility opt = or_default (parse_percentage pf (row ! 18)) 0.20))"
  using assms
  by (auto simp: chain_row_def Let_def chain_option_def split: if_splits option.splits)

lemma parse_option_chain_csv_member:
  assumes "parse_option_chain_csv pf expiry reader = Inr opts" and "opt \<in> set opts"
  shows "\<exists>row\<in>set (tl reader). opt \<in> set (chain_row pf expiry row)"
  using assms
  by (auto simp: parse_option_chain_csv_def chain_rows_concat split: list.splits)

text \<open>
  C6 as stated fails: the row whose call IV field is \<^verbatim>\<open>0.00\<close> supplies an IV, which
  parses to 0, and the call emitted from it has the implied volatility 0.20.
\<close>

theorem chain_row_zero_iv_defaults:
  "zero_iv_row ! 4 = ''0.00''
   \<and> parse_percentage decimal_float (zero_iv_row ! 4) = Some 0
   \<and> parse_option_chain_csv decimal_float 30 [header_row, zero_iv_row]
       = Inr [chain_option 30 23000 ''call'' 120.5 (Some 0),
              chain_option 30 23000 ''put'' 80.25 None]
   \<and> option_type (chain_option 30 23000 ''call'' 120.5 (Some 0)) = ''call''
   \<and> implied_volatility (chain_option 30 23000 ''call'' 120.5 (Some 0)) = 0.20"
  by (simp add: parse_option_chain_csv_def chain_row_zero_iv_row zero_iv_row_fields
        parse_percentage_zero chain_option_def or_default_def)

text \<open>
  C6, amended. Every option the option-chain parser emits is emitted from a row of the
  file; its implied volatility is the parsed IV of that same row (column 4 for a call,
  column 18 for a put) when the IV parses to a number other than 0, and 0.20 when the
  IV field does not parse (it is empty, \<^verbatim>\<open>-\<close> or no number) or parses to 0.
\<close>

theorem chain_option_implied_volatility:
  assumes "parse_option_chain_csv pf expiry reader = Inr opts" and "opt \<in> set opts"
  shows "\<exists>row\<in>set (tl reader).
           opt \<in> set (chain_row pf expiry row)
           \<and> ((option_type opt = ''call''
                  \<and> implied_volatility opt =
                      (case parse_percentage pf (row ! 4) of
                         None \<Rightarrow> 0.20
                       | Some iv \<Rightarrow> if iv = 0 then 0.20 else iv))
              \<or> (option_type opt = ''put''
                  \<and> implied_volatility opt =
                      (case parse_percentage pf (row ! 18) of
                         None \<Rightarrow> 0.20
                       | Some iv \<Rightarrow> if iv = 0 then 0.20 else iv)))"
proof -
  from parse_option_chain_csv_member [OF assms]
  obtain row where row: "row \<in> set (tl reader)" and opt: "opt \<in> set (chain_row pf expiry row)"
    by blast
  from chain_row_member [OF opt] have
    "(option_type opt = ''call''
        \<and> implied_volatility opt = or_default (parse_percentage pf (row ! 4)) 0.20)
     \<or> (option_type opt = ''put''
        \<and> implied_volatility opt = or_default (parse_percentage pf (row ! 18)) 0.20)"
    by blast
  with row opt show ?thesis
    unfolding or_default_def by blast
qed

theorem chain_option_implied_volatility_witness:
  "parse_option_chain_csv decimal_float 30 [header_row, quoted_row]
     = Inr [chain_option 30 23000 ''call'' 120.5 (Some 0.155),
            chain_option 30 23000 ''put'' 80.25 None]
   \<and> parse_percentage decimal_float (quoted_row ! 4) = Some 0.155
   \<and> implied_volatility (chain_option 30 23000 ''call'' 120.5 (Some 0.155)) = 0.155
   \<and> parse_percentage decimal_float (quoted_row ! 18) = None
   \<and> implied_volatility (chain_option 30 23000 ''put'' 80.25 None) = 0.20"
proof -
  let ?c = "chain_option 30 23000 ''call'' 120.5 (Some 0.155)"
  let ?p = "chain_option 30 23000 ''put'' 80.25 None"
  have parsed: "parse_option_chain_csv decimal_float 30 [header_row, quoted_row] = Inr [?c, ?p]"
    by (simp add: parse_option_chain_csv_def chain_row_quoted_row)
  have call_iv: "parse_percentage decimal_float (quoted_row ! 4) = Some 0.155"
    by (simp add: quoted_row_fields parse_percentage_call_iv)
  have put_iv: "parse_percentage decimal_float (quoted_row ! 18) = None"
    by (simp add: quoted_row_fields parse_percentage_dash)
  have types: "option_type ?c = ''call''" "option_type ?p = ''put''"
    by (simp_all add: chain_option_def)
  from chain_option_implied_volatility [OF parsed, of ?c] types call_iv
  have c: "implied_volatility ?c = 0.155"
    by simp
  from chain_option_implied_volatility [OF parsed, of ?p] types put_iv
  have p: "implied_volatility ?p = 0.20"
    by simp
  from parsed call_iv put_iv c p show ?thesis
    by blast
qed

section \<open>Options of the portfolio parser\<close>

lemma portfolio_option_fields:
  assumes "portfolio_option pf row = Inr opt"
  shows "market_price opt = None \<and> position opt \<noteq> None \<and> spot_price opt \<noteq> None
       \<and> (\<exists>s. row ''option_type'' = Some (Some s) \<and> option_type opt = lower s)"
  using assms
  by (auto simp: portfolio_option_def bind_exc_eq_Inr getitem_def float_of_def lower_of_def
           split: option.splits)

lemma portfolio_rows_member:
  assumes "portfolio_rows pf acc rows = Inr opts" and "opt \<in> set opts"
  shows "opt \<in> set acc \<or> (\<exists>row\<in>set rows. portfolio_option pf row = Inr opt)"
  using assms
proof (induction rows arbitrary: acc)
  case Nil
  then show ?case by simp
next
  case (Cons row rows)
  show ?case
  proof (cases "portfolio_option pf row")
    case (Inl e)
    with Cons.prems have "portfolio_rows pf acc rows = Inr opts"
      by (simp split: if_splits)
    from Cons.IH [OF this Cons.prems(2)] show ?thesis
      by auto
  next
    case (Inr new)
    with Cons.prems have "portfolio_rows pf (acc @ [new]) rows = Inr opts"
      by simp
    from Cons.IH [OF this Cons.prems(2)] Inr show ?thesis
      by auto
  qed
qed

lemma parse_portfolio_csv_member:
  assumes "parse_portfolio_csv pf reader = Inr opts" and "opt \<in> set opts"
  shows "\<exists>row\<in>set reader. portfolio_option pf row = Inr opt"
  using portfolio_rows_member [of pf "[]" reader opts opt] assms
  by (simp add: parse_portfolio_csv_def)

lemma decimal_float_small:
  "decimal_float ''1'' = Some 1" "decimal_float ''100'' = Some 100"
  "decimal_float ''0.25'' = Some 0.25" "decimal_float ''0.2'' = Some 0.2"
  by (simp_all add: decimal_float_def unsigned_decimal_def digit_of_def)

lemma lower_Call: "lower ''Call'' = ''call''"
  by code_simp

lemma lower_Straddle: "lower ''Straddle'' = ''straddle''"
  by code_simp

lemma portfolio_option_position_row:
  "portfolio_option decimal_float position_row =
     Inr \<lparr>symbol = Some ''AAPL'', strike = 100, option_type = ''call'', market_price = None,
          implied_volatility = 0.2, expiry_days = 0.25 * 365,
          position = Some 1, spot_price = Some 100\<rparr>"
  by (simp add: portfolio_option_def position_row_def getitem_def float_of_def lower_of_def
        decimal_float_small lower_Call)

lemma portfolio_option_straddle_row:
  "portfolio_option decimal_float straddle_row =
     Inr \<lparr>symbol = Some ''AAPL'', strike = 100, option_type = ''straddle'', market_price = None,
          implied_volatility = 0.2, expiry_days = 0.25 * 365,
          position = Some 1, spot_price = Some 100\<rparr>"
  by (simp add: portfolio_option_def straddle_row_def position_row_def getitem_def float_of_def
        lower_of_def decimal_float_small lower_Straddle)

text \<open>
  C8 as stated fails: the portfolio parser turns a row whose option type is
  \<^verbatim>\<open>Straddle\<close> into an option of type \<^verbatim>\<open>straddle\<close>.
\<close>

theorem portfolio_option_type_straddle:
  "straddle_row ''option_type'' = Some (Some ''Straddle'')
   \<and> parse_portfolio_csv decimal_float [straddle_row] =
       Inr [\<lparr>symbol = Some ''AAPL'', strike = 100, option_type = ''straddle'',
             market_price = None, implied_volatility = 0.2, expiry_days = 0.25 * 365,
             position = Some 1, spot_price = Some 100\<rparr>]
   \<and> ''straddle'' \<noteq> ''call'' \<and> ''straddle'' \<noteq> ''put''"
proof -
  have "straddle_row ''option_type'' = Some (Some ''Straddle'')"
    by (simp add: straddle_row_def)
  then show ?thesis
    by (simp add: parse_portfolio_csv_def portfolio_option_straddle_row)
qed

text \<open>
  C8, amended. Every option of the option-chain parser has the type \<^verbatim>\<open>call\<close> or
  \<^verbatim>\<open>put\<close>. Every option of the portfolio parser is built from a row of the file and
  has as its type the lower-cased option type text of that same row: the casing of the
  source is normalised, its spelling is not.
\<close>

theorem parsed_option_type:
  "(parse_option_chain_csv pf expiry reader = Inr opts \<longrightarrow>
      (\<forall>opt\<in>set opts. option_type opt = ''call'' \<or> option_type opt = ''put''))
   \<and> (parse_portfolio_csv pf dict_reader = Inr popts \<longrightarrow>
      (\<forall>opt\<in>set popts. \<exists>row\<in>set dict_reader.
          portfolio_option pf row = Inr opt
          \<and> (\<exists>s. row ''option_type'' = Some (Some s) \<and> option_type opt = lower s)))"
proof (intro conjI impI ballI)
  fix opt
  assume "parse_option_chain_csv pf expiry reader = Inr opts" and "opt \<in> set opts"
  from parse_option_chain_csv_member [OF this]
  obtain row where "opt \<in> set (chain_row pf expiry row)"
    by blast
  from chain_row_member [OF this]
  show "option_type opt = ''call'' \<or> option_type opt = ''put''"
    by blast
next
  fix opt
  assume "parse_portfolio_csv pf dict_reader = Inr popts" and "opt \<in> set popts"
  from parse_portfolio_csv_member [OF this]
  obtain row where "row \<in> set dict_reader" and "portfolio_option pf row = Inr opt"
    by blast
  with portfolio_option_fields [of pf row opt]
  show "\<exists>row\<in>set dict_reader.
          portfolio_option pf row = Inr opt
          \<and> (\<exists>s. row ''option_type'' = Some (Some s) \<and> option_type opt = lower s)"
    by blast
qed

theorem parsed_option_type_witness:
  "parse_option_chain_csv decimal_float 30 [header_row, quoted_row]
     = Inr [chain_option 30 23000 ''call'' 120.5 (Some 0.155),
            chain_option 30 23000 ''put'' 80.25 None]
   \<and> option_type (chain_option 30 23000 ''call'' 120.5 (Some 0.155)) = ''call''
   \<and> option_type (chain_option 30 23000 ''put'' 80.25 None) = ''put''
   \<and> position_row ''option_type'' = Some (Some ''Call'')
   \<and> (\<exists>opt. parse_portfolio_csv decimal_float [position_row] = Inr [opt]
          \<and> option_type opt = lower ''Call'' \<and> option_type opt = ''call'')"
proof -
  let ?c = "chain_option 30 23000 ''call'' 120.5 (Some 0.155)"
  let ?p = "chain_option 30 23000 ''put'' 80.25 None"
  let ?o = "\<lparr>symbol = Some ''AAPL'', strike = 100, option_type = ''call'', market_price = None,
             implied_volatility = 0.2, expiry_days = 0.25 * 365,
             position = Some 1, spot_price = Some 100\<rparr>"
  have chain: "parse_option_chain_csv decimal_float 30 [header_row, quoted_row] = Inr [?c, ?p]"
    by (simp add: parse_option_chain_csv_def chain_row_quoted_row)
  have pf: "parse_portfolio_csv decimal_float [position_row] = Inr [?o]"
    by (simp add: parse_portfolio_csv_def portfolio_option_position_row)
  have src: "position_row ''option_type'' = Some (Some ''Call'')"
    by (simp add: position_row_def)
  note inst = parsed_option_type [of decimal_float 30 "[header_row, quoted_row]" "[?c, ?p]"
                "[position_row]" "[?o]"]
  from inst chain have "option_type ?c = ''call'' \<or> option_type ?c = ''put''"
    by simp
  then have c: "option_type ?c = ''call''"
    by (simp add: chain_option_def)
  from inst chain have "option_type ?p = ''call'' \<or> option_type ?p = ''put''"
    by simp
  then have p: "option_type ?p = ''put''"
    by (simp add: chain_option_def)
  from inst pf src have "option_type ?o = lower ''Call''"
    by simp
  with chain pf src c p show ?thesis
    by simp
qed

section \<open>Results of an analysis\<close>

lemma analyze_option_fields:
  "res_market_price (analyze_option opt spot calc) = market_price opt"
  "theoretical_price (analyze_option opt spot calc) = theoretical_price calc"
  "calculation_success (analyze_option opt spot calc) = calculation_success calc"
  by (simp_all add: analyze_option_def Let_def split: option.splits)

lemma analyze_option_derived:
  "price_difference (analyze_option opt spot calc)
     = map_option (\<lambda>mp. mp - theoretical_price calc) (market_price opt)"
  "price_difference_pct (analyze_option opt spot calc)
     = map_option (\<lambda>mp. if theoretical_price calc > 0
                          then (mp - theoretical_price calc) / theoretical_price calc * 100
                          else 0) (market_price opt)"
  by (simp_all add: analyze_option_def Let_def split: option.splits)

lemma getkeys_total:
  "(\<forall>r\<in>set rs. k r \<noteq> None) \<Longrightarrow> \<exists>vs. getkeys k rs = Inr vs"
  by (simp add: getkeys_present)

lemma generate_summary_total:
  assumes keys: "\<forall>r\<in>set results. res_market_price r \<noteq> None \<longrightarrow>
                   price_difference r \<noteq> None \<and> price_difference_pct r \<noteq> None"
  shows "\<exists>sm. generate_summary results spot = Inr sm"
proof (cases "filter calculation_success results = []")
  case True
  then show ?thesis
    by (simp add: generate_summary_def)
next
  case False
  from generate_summary_Summary [OF False, of spot] keys show ?thesis
    by blast
qed

lemma analyze_csv_Report:
  assumes "analyze_csv pf expiry price file spot_arg rate = Inr (Report rep)"
  shows "\<exists>opts.
           (if contains ''symbol,position,spot,strike'' (lower (first_line file))
            then parse_portfolio_csv pf (dict_rows file)
            else parse_option_chain_csv pf expiry (reader_rows file)) = Inr opts
           \<and> options rep =
               map (\<lambda>option. analyze_option option (meta_spot_price (metadata rep))
                                (price option (meta_spot_price (metadata rep)) rate)) opts
           \<and> generate_summary (options rep) (meta_spot_price (metadata rep))
               = Inr (summary rep)"
proof (cases "if contains ''symbol,position,spot,strike'' (lower (first_line file))
              then parse_portfolio_csv pf (dict_rows file)
              else parse_option_chain_csv pf expiry (reader_rows file)")
  case (Inl e)
  with assms show ?thesis
    by (simp add: analyze_csv_def Let_def split: if_splits)
next
  case (Inr opts)
  show ?thesis
  proof (cases opts)
    case Nil
    with Inr assms show ?thesis
      by (simp add: analyze_csv_def Let_def split: if_splits)
  next
    case (Cons first rest)
    with Inr assms show ?thesis
      by (auto simp: analyze_csv_def Let_def bind_exc_eq_Inr split: if_splits)
  qed
qed


lemma analyze_csv_returns:
  assumes parsed: "(if contains ''symbol,position,spot,strike'' (lower (first_line file))
                    then parse_portfolio_csv pf (dict_rows file)
                    else parse_option_chain_csv pf expiry (reader_rows file)) = Inr opts"
      and nonempty: "opts \<noteq> []"
  shows "\<exists>rep. analyze_csv pf expiry price file spot_arg rate = Inr (Report rep)"
proof -
  from nonempty obtain first rest where opts: "opts = first # rest"
    by (cases opts) auto
  have total: "\<exists>sm. generate_summary
                  (map (\<lambda>option. analyze_option option spot (price option spot rate)) opts) spot
                = Inr sm" for spot
    by (rule generate_summary_total) (auto simp: analyze_option_fields analyze_option_derived)
  have returns: "\<exists>rep. bind_exc
                 (generate_summary
                    (map (\<lambda>option. analyze_option option spot (price option spot rate)) opts) spot)
                 (\<lambda>sm. Inr (Report \<lparr>metadata = m, options = rs, summary = sm\<rparr>))
               = Inr (Report rep)" for spot m rs
    using total [of spot] by auto
  show ?thesis
  proof (cases spot_arg)
    case (Some s)
    with parsed opts returns [of s] show ?thesis
      by (simp add: analyze_csv_def Let_def split: if_splits)
  next
    case None
    show ?thesis
    proof (cases "contains ''symbol,position,spot,strike'' (lower (first_line file))")
      case True
      with None parsed opts
           returns [of "case spot_price first of None \<Rightarrow> 23000.0 | Some s \<Rightarrow> s"]
      show ?thesis
        by (simp add: analyze_csv_def Let_def)
    next
      case False
      with None parsed opts returns [of "estimate_spot_price opts"] show ?thesis
        by (simp add: analyze_csv_def Let_def)
    qed
  qed
qed

lemma generate_summary_no_market_price:
  assumes none: "\<forall>r\<in>set results. res_market_price r = None"
      and sm: "generate_summary results spot = Inr (Summary s)"
  shows "options_with_market_prices (market_analysis s) = 0
       \<and> overpriced_count (market_analysis s) = 0
       \<and> underpriced_count (market_analysis s) = 0
       \<and> avg_price_difference_pct (market_analysis s) = 0"
proof -
  have empty: "filter (\<lambda>r. res_market_price r \<noteq> None) (filter calculation_success results) = []"
    using none by (auto simp: filter_empty_conv)
  from sm show ?thesis
    by (auto simp: generate_summary_def Let_def empty split: if_splits
             simp del: filter_filter not_None_eq)
qed

lemma contains_chain_file:
  "\<not> contains ''symbol,position,spot,strike'' (lower (first_line chain_file))"
  unfolding chain_file_def by code_simp

lemma contains_portfolio_file:
  "contains ''symbol,position,spot,strike'' (lower (first_line portfolio_file))"
  unfolding portfolio_file_def by code_simp


lemma parse_chain_file:
  "(if contains ''symbol,position,spot,strike'' (lower (first_line chain_file))
    then parse_portfolio_csv decimal_float (dict_rows chain_file)
    else parse_option_chain_csv decimal_float 30 (reader_rows chain_file))
   = Inr [chain_option 30 23000 ''call'' 120.5 (Some 0.155),
          chain_option 30 23000 ''put'' 80.25 None]"
proof -
  have "parse_option_chain_csv decimal_float 30 (reader_rows chain_file)
          = Inr [chain_option 30 23000 ''call'' 120.5 (Some 0.155),
                 chain_option 30 23000 ''put'' 80.25 None]"
    by (simp add: chain_file_def parse_option_chain_csv_def chain_row_quoted_row)
  with contains_chain_file show ?thesis
    by simp
qed

lemma parse_portfolio_file:
  "(if contains ''symbol,position,spot,strike'' (lower (first_line portfolio_file))
    then parse_portfolio_csv decimal_float (dict_rows portfolio_file)
    else parse_option_chain_csv decimal_float 30 (reader_rows portfolio_file))
   = Inr [\<lparr>symbol = Some ''AAPL'', strike = 100, option_type = ''call'', market_price = None,
           implied_volatility = 0.2, expiry_days = 0.25 * 365,
           position = Some 1, spot_price = Some 100\<rparr>]"
proof -
  have "parse_portfolio_csv decimal_float (dict_rows portfolio_file)
          = Inr [\<lparr>symbol = Some ''AAPL'', strike = 100, option_type = ''call'',
                  market_price = None, implied_volatility = 0.2, expiry_days = 0.25 * 365,
                  position = Some 1, spot_price = Some 100\<rparr>]"
    by (simp add: portfolio_file_def parse_portfolio_csv_def portfolio_option_position_row)
  with contains_portfolio_file show ?thesis
    by simp
qed

section \<open>The derived price fields\<close>

text \<open>
  C3 as stated fails: when the pricing call fails on the quoted option chain, the call's
  result has a market price and the theoretical price 0, and both derived fields are
  present: \<open>price_difference\<close> is the market price and \<open>price_difference_pct\<close> is 0.
\<close>

theorem price_difference_at_zero_price:
  "analyze_csv decimal_float 30 failed_price chain_file None 0.05
     = Inr (Report
         \<lparr>metadata = \<lparr>meta_format_type = option_chain, total_options = 2,
                       meta_spot_price = 23000, risk_free_rate = 0.05\<rparr>,
          options =
            [analyze_option (chain_option 30 23000 ''call'' 120.5 (Some 0.155)) 23000
               default_option_result,
             analyze_option (chain_option 30 23000 ''put'' 80.25 None) 23000
               default_option_result],
          summary = SummaryError ''No successful calculations''\<rparr>)
   \<and> res_market_price (analyze_option (chain_option 30 23000 ''call'' 120.5 (Some 0.155)) 23000
        default_option_result) = Some 120.5
   \<and> theoretical_price (analyze_option (chain_option 30 23000 ''call'' 120.5 (Some 0.155)) 23000
        default_option_result) = 0
   \<and> price_difference (analyze_option (chain_option 30 23000 ''call'' 120.5 (Some 0.155)) 23000
        default_option_result) = Some 120.5
   \<and> price_difference_pct (analyze_option (chain_option 30 23000 ''call'' 120.5 (Some 0.155))
        23000 default_option_result) = Some 0"
proof -
  let ?c = "chain_option 30 23000 ''call'' 120.5 (Some 0.155)"
  let ?p = "chain_option 30 23000 ''put'' 80.25 None"
  have parsed: "parse_option_chain_csv decimal_float 30 (reader_rows chain_file) = Inr [?c, ?p]"
    using parse_chain_file contains_chain_file by simp
  have spot: "estimate_spot_price
                [chain_option 30 k ''call'' a x, chain_option 30 k ''put'' b y] = k" for k a x b y
    by (simp add: estimate_spot_price_def chain_option_def)
  have sm: "generate_summary
              [analyze_option a s default_option_result,
               analyze_option b s default_option_result] s
            = Inr (SummaryError ''No successful calculations'')" for a b s
    by (simp add: generate_summary_def analyze_option_fields default_option_result_def)
  have report: "analyze_csv decimal_float 30 failed_price chain_file None 0.05
     = Inr (Report
         \<lparr>metadata = \<lparr>meta_format_type = option_chain, total_options = 2,
                       meta_spot_price = 23000, risk_free_rate = 0.05\<rparr>,
          options = [analyze_option ?c 23000 default_option_result,
                     analyze_option ?p 23000 default_option_result],
          summary = SummaryError ''No successful calculations''\<rparr>)"
    using contains_chain_file
    by (simp add: analyze_csv_def Let_def parsed spot failed_price_def sm)
  have fields: "res_market_price (analyze_option ?c 23000 default_option_result) = Some 120.5"
    "theoretical_price (analyze_option ?c 23000 default_option_result) = 0"
    "price_difference (analyze_option ?c 23000 default_option_result) = Some 120.5"
    "price_difference_pct (analyze_option ?c 23000 default_option_result) = Some 0"
    by (simp_all add: analyze_option_fields analyze_option_derived chain_option_def
          default_option_result_def)
  from report fields show ?thesis
    by blast
qed

text \<open>
  C3, amended. In every result of a report, the two derived fields are absent when the
  market price is absent, and present when it is present: then \<open>price_difference\<close> is
  \<open>market_price - theoretical_price\<close>, and \<open>price_difference_pct\<close> is
  \<open>price_difference / theoretical_price * 100\<close> when the theoretical price is positive
  and 0 otherwise.
\<close>

theorem result_price_difference:
  assumes report: "analyze_csv pf expiry price file spot_arg rate = Inr (Report rep)"
      and result: "r \<in> set (options rep)"
  shows "(res_market_price r = None \<longrightarrow>
            price_difference r = None \<and> price_difference_pct r = None)
       \<and> (\<forall>mp. res_market_price r = Some mp \<longrightarrow>
            price_difference r = Some (mp - theoretical_price r)
            \<and> price_difference_pct r =
                Some (if theoretical_price r > 0
                      then (mp - theoretical_price r) / theoretical_price r * 100
                      else 0))"
proof -
  from analyze_csv_Report [OF report] result
  obtain opt spot calc where "r = analyze_option opt spot calc"
    by auto
  then show ?thesis
    by (auto simp: analyze_option_fields analyze_option_derived)
qed

theorem result_price_difference_witness:
  "(\<exists>rep. analyze_csv decimal_float 30 fixed_price chain_file None 0.05 = Inr (Report rep)
       \<and> map res_market_price (options rep) = [Some 120.5, Some 80.25]
       \<and> map theoretical_price (options rep) = [4.0, 4.0]
       \<and> map price_difference (options rep) = [Some 116.5, Some 76.25]
       \<and> map price_difference_pct (options rep) = [Some 2912.5, Some 1906.25])
   \<and> (\<exists>rep. analyze_csv decimal_float 30 fixed_price portfolio_file None 0.05 = Inr (Report rep)
       \<and> map res_market_price (options rep) = [None]
       \<and> map price_difference (options rep) = [None]
       \<and> map price_difference_pct (options rep) = [None])"
proof -
  let ?c = "chain_option 30 23000 ''call'' 120.5 (Some 0.155)"
  let ?p = "chain_option 30 23000 ''put'' 80.25 None"
  let ?o = "\<lparr>symbol = Some ''AAPL'', strike = 100, option_type = ''call'', market_price = None,
             implied_volatility = 0.2, expiry_days = 0.25 * 365,
             position = Some 1, spot_price = Some 100\<rparr>"
  from analyze_csv_returns [OF parse_chain_file, of fixed_price None "0.05"]
  obtain rep where rep: "analyze_csv decimal_float 30 fixed_price chain_file None 0.05
                           = Inr (Report rep)"
    by auto
  from analyze_csv_Report [OF rep] parse_chain_file
  obtain s where "options rep = [analyze_option ?c s (fixed_price ?c s 0.05),
                                 analyze_option ?p s (fixed_price ?p s 0.05)]"
    by auto
  moreover define rc where "rc = analyze_option ?c s (fixed_price ?c s 0.05)"
  moreover define rp where "rp = analyze_option ?p s (fixed_price ?p s 0.05)"
  ultimately have rs: "options rep = [rc, rp]"
    by simp
  have mp: "res_market_price rc = Some 120.5" "res_market_price rp = Some 80.25"
    by (simp_all add: rc_def rp_def analyze_option_fields chain_option_def)
  have tp: "theoretical_price rc = 4.0" "theoretical_price rp = 4.0"
    by (simp_all add: rc_def rp_def analyze_option_fields fixed_price_def)
  from result_price_difference [OF rep, of rc] rs mp(1)
  have "price_difference rc = Some (120.5 - theoretical_price rc)
        \<and> price_difference_pct rc =
            Some (if theoretical_price rc > 0
                  then (120.5 - theoretical_price rc) / theoretical_price rc * 100 else 0)"
    by simp
  then have dc: "price_difference rc = Some 116.5" "price_difference_pct rc = Some 2912.5"
    unfolding tp by simp_all
  from result_price_difference [OF rep, of rp] rs mp(2)
  have "price_difference rp = Some (80.25 - theoretical_price rp)
        \<and> price_difference_pct rp =
            Some (if theoretical_price rp > 0
                  then (80.25 - theoretical_price rp) / theoretical_price rp * 100 else 0)"
    by simp
  then have dp: "price_difference rp = Some 76.25" "price_difference_pct rp = Some 1906.25"
    unfolding tp by simp_all
  have chain: "\<exists>rep.
      analyze_csv decimal_float 30 fixed_price chain_file None 0.05 = Inr (Report rep)
      \<and> map res_market_price (options rep) = [Some 120.5, Some 80.25]
      \<and> map theoretical_price (options rep) = [4.0, 4.0]
      \<and> map price_difference (options rep) = [Some 116.5, Some 76.25]
      \<and> map price_difference_pct (options rep) = [Some 2912.5, Some 1906.25]"
    using rep by (intro exI [of _ rep]) (simp add: rs mp tp dc dp)
  from analyze_csv_returns [OF parse_portfolio_file, of fixed_price None "0.05"]
  obtain rep' where rep': "analyze_csv decimal_float 30 fixed_price portfolio_file None 0.05
                             = Inr (Report rep')"
    by auto
  from analyze_csv_Report [OF rep'] parse_portfolio_file
  obtain s' where "options rep' = [analyze_option ?o s' (fixed_price ?o s' 0.05)]"
    by auto
  moreover define ro where "ro = analyze_option ?o s' (fixed_price ?o s' 0.05)"
  ultimately have rs': "options rep' = [ro]"
    by simp
  have mp': "res_market_price ro = None"
    by (simp add: ro_def analyze_option_fields)
  from result_price_difference [OF rep', of ro] rs' mp'
  have d': "price_difference ro = None" "price_difference_pct ro = None"
    by simp_all
  have "\<exists>rep.
      analyze_csv decimal_float 30 fixed_price portfolio_file None 0.05 = Inr (Report rep)
      \<and> map res_market_price (options rep) = [None]
      \<and> map price_difference (options rep) = [None]
      \<and> map price_difference_pct (options rep) = [None]"
    using rep' by (intro exI [of _ rep']) (simp add: rs' mp' d')
  with chain show ?thesis
    by blast
qed


section \<open>Portfolio files carry no market price\<close>

text \<open>
  C10. Every option of the portfolio parser has no market price. So in the report of a
  file in portfolio format no result has a market price, and when the summary is not the
  error marker its count of options with market prices, its overpriced and underpriced
  counts and its average price difference are 0. The analysis of such a file returns a
  report whenever the parser returns at least one option.
\<close>

theorem portfolio_market_price_absent:
  "(parse_portfolio_csv pf dict_reader = Inr opts \<longrightarrow>
      (\<forall>opt\<in>set opts. market_price opt = None))
   \<and> (contains ''symbol,position,spot,strike'' (lower (first_line file))
        \<and> analyze_csv pf expiry price file spot_arg rate = Inr (Report rep) \<longrightarrow>
      (\<forall>r\<in>set (options rep). res_market_price r = None)
      \<and> (\<forall>s. summary rep = Summary s \<longrightarrow>
            options_with_market_prices (market_analysis s) = 0
            \<and> overpriced_count (market_analysis s) = 0
            \<and> underpriced_count (market_analysis s) = 0
            \<and> avg_price_difference_pct (market_analysis s) = 0))
   \<and> (contains ''symbol,position,spot,strike'' (lower (first_line file))
        \<and> parse_portfolio_csv pf (dict_rows file) = Inr opts \<and> opts \<noteq> [] \<longrightarrow>
      (\<exists>rep. analyze_csv pf expiry price file spot_arg rate = Inr (Report rep)))"
proof (intro conjI impI)
  assume "parse_portfolio_csv pf dict_reader = Inr opts"
  then show "\<forall>opt\<in>set opts. market_price opt = None"
    using parse_portfolio_csv_member portfolio_option_fields by blast
next
  assume h: "contains ''symbol,position,spot,strike'' (lower (first_line file))
             \<and> analyze_csv pf expiry price file spot_arg rate = Inr (Report rep)"
  from analyze_csv_Report [OF conjunct2 [OF h]] h
  obtain popts where parsed: "parse_portfolio_csv pf (dict_rows file) = Inr popts"
    and rs: "options rep =
               map (\<lambda>option. analyze_option option (meta_spot_price (metadata rep))
                                (price option (meta_spot_price (metadata rep)) rate)) popts"
    and sm: "generate_summary (options rep) (meta_spot_price (metadata rep))
               = Inr (summary rep)"
    by auto
  have "\<forall>opt\<in>set popts. market_price opt = None"
    using parsed parse_portfolio_csv_member portfolio_option_fields by blast
  then show none: "\<forall>r\<in>set (options rep). res_market_price r = None"
    by (simp add: rs analyze_option_fields)
  show "\<forall>s. summary rep = Summary s \<longrightarrow>
            options_with_market_prices (market_analysis s) = 0
            \<and> overpriced_count (market_analysis s) = 0
            \<and> underpriced_count (market_analysis s) = 0
            \<and> avg_price_difference_pct (market_analysis s) = 0"
  proof (intro allI impI)
    fix s
    assume "summary rep = Summary s"
    with sm have "generate_summary (options rep) (meta_spot_price (metadata rep))
                    = Inr (Summary s)"
      by simp
    from generate_summary_no_market_price [OF none this]
    show "options_with_market_prices (market_analysis s) = 0
          \<and> overpriced_count (market_analysis s) = 0
          \<and> underpriced_count (market_analysis s) = 0
          \<and> avg_price_difference_pct (market_analysis s) = 0" .
  qed
next
  assume "contains ''symbol,position,spot,strike'' (lower (first_line file))
          \<and> parse_portfolio_csv pf (dict_rows file) = Inr opts \<and> opts \<noteq> []"
  then show "\<exists>rep. analyze_csv pf expiry price file spot_arg rate = Inr (Report rep)"
    using analyze_csv_returns [where pf = pf and opts = opts] by simp
qed

theorem portfolio_market_price_absent_witness:
  "contains ''symbol,position,spot,strike'' (lower (first_line portfolio_file))
   \<and> (\<exists>opt. parse_portfolio_csv decimal_float (dict_rows portfolio_file) = Inr [opt]
          \<and> market_price opt = None)
   \<and> (\<exists>rep s. analyze_csv decimal_float 30 fixed_price portfolio_file None 0.05
                  = Inr (Report rep)
          \<and> map res_market_price (options rep) = [None]
          \<and> summary rep = Summary s
          \<and> options_with_market_prices (market_analysis s) = 0
          \<and> overpriced_count (market_analysis s) = 0
          \<and> underpriced_count (market_analysis s) = 0
          \<and> avg_price_difference_pct (market_analysis s) = 0
          \<and> total_value (portfolio_metrics s) = 4.0
          \<and> net_delta (portfolio_metrics s) = 0.52)"
proof -
  let ?o = "\<lparr>symbol = Some ''AAPL'', strike = 100, option_type = ''call'', market_price = None,
             implied_volatility = 0.2, expiry_days = 0.25 * 365,
             position = Some 1, spot_price = Some 100\<rparr>"
  note fmt = contains_portfolio_file
  have parsed: "parse_portfolio_csv decimal_float (dict_rows portfolio_file) = Inr [?o]"
    using parse_portfolio_file fmt by simp
  note inst = portfolio_market_price_absent [of decimal_float "dict_rows portfolio_file" "[?o]"
                portfolio_file 30 fixed_price None "0.05"]
  from inst parsed have first: "market_price ?o = None"
    by simp
  from inst fmt parsed
  obtain rep where rep: "analyze_csv decimal_float 30 fixed_price portfolio_file None 0.05
                           = Inr (Report rep)"
    by blast
  from analyze_csv_Report [OF rep] parse_portfolio_file
  obtain sp where "options rep = [analyze_option ?o sp (fixed_price ?o sp 0.05)]"
    and sm: "generate_summary (options rep) sp = Inr (summary rep)"
    by auto
  moreover define ro where "ro = analyze_option ?o sp (fixed_price ?o sp 0.05)"
  ultimately have rs: "options rep = [ro]"
    by simp
  have ro: "calculation_success ro" "res_market_price ro = None" "res_position ro = 1"
    "theoretical_price ro = 4.0" "delta ro = 0.52"
    by (simp_all add: ro_def analyze_option_def fixed_price_def)
  have "\<exists>s. generate_summary (options rep) sp = Inr (Summary s)
          \<and> net_delta (portfolio_metrics s)
              = (\<Sum>r\<leftarrow>filter calculation_success (options rep). delta r * res_position r)
          \<and> total_value (portfolio_metrics s)
              = (\<Sum>r\<leftarrow>filter calculation_success (options rep).
                   theoretical_price r * res_position r)"
    using generate_summary_Summary [of "options rep" sp] by (auto simp: rs ro)
  then obtain s where s: "summary rep = Summary s"
    and totals: "net_delta (portfolio_metrics s) = 0.52" "total_value (portfolio_metrics s) = 4.0"
    using sm by (auto simp: rs ro)
  from portfolio_market_price_absent [of decimal_float "dict_rows portfolio_file" "[?o]"
         portfolio_file 30 fixed_price None "0.05" rep] fmt rep s
  have zeros: "options_with_market_prices (market_analysis s) = 0
               \<and> overpriced_count (market_analysis s) = 0
               \<and> underpriced_count (market_analysis s) = 0
               \<and> avg_price_difference_pct (market_analysis s) = 0"
    by blast
  have absent: "map res_market_price (options rep) = [None]"
    by (simp add: rs ro)
  have a: "\<exists>opt. parse_portfolio_csv decimal_float (dict_rows portfolio_file) = Inr [opt]
             \<and> market_price opt = None"
    using parsed first by (intro exI [of _ ?o] conjI)
  have b: "\<exists>rep s. analyze_csv decimal_float 30 fixed_price portfolio_file None 0.05
                      = Inr (Report rep)
             \<and> map res_market_price (options rep) = [None]
             \<and> summary rep = Summary s
             \<and> options_with_market_prices (market_analysis s) = 0
             \<and> overpriced_count (market_analysis s) = 0
             \<and> underpriced_count (market_analysis s) = 0
             \<and> avg_price_difference_pct (market_analysis s) = 0
             \<and> total_value (portfolio_metrics s) = 4.0
             \<and> net_delta (portfolio_metrics s) = 0.52"
    using rep absent s zeros totals by (intro exI [of _ rep] exI [of _ s]) simp
  show ?thesis
    by (intro conjI) (rule fmt, rule a, rule b)
qed

end
